theory Spec2Isabelle
  imports Main
begin

section \<open>simplecache: memoised methods keyed by an array argument\<close>

text \<open>
  A shallow embedding of \<^verbatim>\<open>src/simplecache.py\<close>: the default key function
  \<^verbatim>\<open>keyfcn_default\<close>, the decorator factory \<^verbatim>\<open>memoized\<close> with its nested
  \<^verbatim>\<open>decorator\<close> and \<^verbatim>\<open>wrapper\<close>, and \<^verbatim>\<open>ArrayMethodCacheMixin.__init__\<close>.

  Python raises exceptions, mutates the cache objects in place and lets the wrapped method
  change the instance while the wrapper still holds a reference to the cache. The model
  makes each of these explicit: an exception is the \<open>Inl\<close> side of a sum, the state is
  passed in and out, and cache objects live in a store addressed by references.
\<close>

subsection \<open>Exceptions\<close>

text \<open>
  The exception classes the source's \<^verbatim>\<open>except\<close> clauses tell apart, each with the
  exception's message. \<open>OtherError\<close> stands for every class that is neither a
  \<^verbatim>\<open>KeyError\<close>, a \<^verbatim>\<open>ValueError\<close> nor an \<^verbatim>\<open>AttributeError\<close>.
\<close>

datatype exn =
    is_AttributeError: AttributeError string
  | is_KeyError: KeyError string
  | is_ValueError: ValueError string
  | OtherError string

subsection \<open>The array argument and the default key function\<close>

text \<open>
  Modelled from the spec: \<^verbatim>\<open>numpy.ndarray\<close> and its method \<^verbatim>\<open>tostring()\<close>
  are not part of the source. The spec (section 4.1) says that the default key is the
  argument's raw byte representation, flattening any internal structure and order. An
  array is a view on a byte buffer: the element with index \<open>idx\<close> occupies
  \<open>itemsize\<close> bytes starting at \<open>offset + \<Sum> idx\<^sub>i * strides\<^sub>i\<close>, and
  \<^verbatim>\<open>tostring()\<close> lists the elements in row-major order of their indices, whatever
  the strides are. Python 2's \<^verbatim>\<open>str\<close> is a byte string, HOL's \<open>string\<close>.
\<close>

record ndarray =
  buffer :: "int \<Rightarrow> char"
  offset :: int
  shape :: "nat list"
  strides :: "int list"
  itemsize :: nat

fun indices :: "nat list \<Rightarrow> nat list list" where
  "indices [] = [Nil]"
| "indices (n # ns) = concat (map (\<lambda>i. map ((#) i) (indices ns)) [0..<n])"

definition byte_offset :: "ndarray \<Rightarrow> nat list \<Rightarrow> int" where
  "byte_offset a idx = offset a + sum_list (map2 (\<lambda>i s. int i * s) idx (strides a))"

definition item :: "ndarray \<Rightarrow> nat list \<Rightarrow> string" where
  "item a idx = map (\<lambda>j. buffer a (byte_offset a idx + int j)) [0..<itemsize a]"

definition tostring :: "ndarray \<Rightarrow> string" where
  "tostring a = concat (map (item a) (indices (shape a)))"

text \<open>
  \<^verbatim>\<open>keyfcn_default\<close> (lines 85-89): \<^verbatim>\<open>return array.tostring()\<close>. A key function
  is any callable, so its type allows it to raise; the default one does not.
\<close>

definition keyfcn_default :: "ndarray \<Rightarrow> exn + string" where
  "keyfcn_default array = Inr (tostring array)"

subsection \<open>The cache type, the instance and its methods\<close>

text \<open>
  \<^verbatim>\<open>cachetype\<close> is a parameter of \<^verbatim>\<open>memoized\<close>: a class that is called with
  the cache size and the extra arguments (\<^verbatim>\<open>cachetype(cachesize, *cargs, **ckwargs)\<close>),
  and whose instances are read with \<^verbatim>\<open>cache[key]\<close> and written with
  \<^verbatim>\<open>cache[key] = value\<close>. Each of the three may raise, and reading and writing may
  change the cache (a hit updates the recency order of an LRU cache, a write may evict).
  \<open>'c\<close> is the state of one cache object, \<open>'p\<close> the extra arguments.
\<close>

record ('k, 'v, 'c, 'p) cachetype =
  construct :: "int \<Rightarrow> 'p \<Rightarrow> exn + 'c"
  getitem :: "'c \<Rightarrow> 'k \<Rightarrow> (exn + 'v) \<times> 'c"
  setitem :: "'c \<Rightarrow> 'k \<Rightarrow> 'v \<Rightarrow> exn option \<times> 'c"

text \<open>
  The state a method call can read and write. \<open>cachedict\<close> is the attribute
  \<^verbatim>\<open>self._cachedict\<close>: \<open>None\<close> when the instance has no such attribute, otherwise
  the dictionary from method names to references to cache objects. \<open>heap\<close> gives the
  current state of the cache object at each reference and \<open>fresh\<close> is the next unused
  reference. \<open>attrs\<close> is everything else the wrapped method can see and change.
\<close>

type_synonym addr = nat

record ('c, 'u) pystate =
  cachedict :: "(string \<rightharpoonup> addr) option"
  heap :: "addr \<Rightarrow> 'c"
  fresh :: addr
  attrs :: 'u

text \<open>
  A method: its \<^verbatim>\<open>__name__\<close>, \<^verbatim>\<open>__doc__\<close> and \<^verbatim>\<open>__module__\<close>, and what a
  call \<^verbatim>\<open>method(self, arrayarg, *args, **kwargs)\<close> does. \<open>'r\<close> is the pair of the
  remaining positional and keyword arguments. The call returns a value or raises, and
  leaves a new state.
\<close>

record ('s, 'a, 'r, 'v) pymethod =
  name :: string
  doc :: "string option"
  modul :: string
  call :: "'s \<Rightarrow> 'a \<Rightarrow> 'r \<Rightarrow> (exn + 'v) \<times> 's"

subsection \<open>The wrapper\<close>

text \<open>
  Lines 132-143, the first \<^verbatim>\<open>try\<close> of \<^verbatim>\<open>wrapper\<close>:
  \<^verbatim>\<open>self._cachedict\<close> raises \<^verbatim>\<open>AttributeError\<close> when the attribute is missing,
  which \<^verbatim>\<open>except KeyError\<close> does not catch. A missing key is caught: the cache is
  constructed (an exception of the constructor propagates, nothing is registered) and
  registered under the method's name. The result is the reference held by the local
  variable \<^verbatim>\<open>cache\<close>.
\<close>

definition get_cache ::
  "('k, 'v, 'c, 'p) cachetype \<Rightarrow> int \<Rightarrow> 'p \<Rightarrow> string \<Rightarrow> ('c, 'u) pystate
    \<Rightarrow> (exn + addr) \<times> ('c, 'u) pystate" where
  "get_cache cachetype cachesize cargs mname self =
     (case cachedict self of
        None \<Rightarrow> (Inl (AttributeError ''_cachedict''), self)
      | Some d \<Rightarrow>
          (case d mname of
             Some cache \<Rightarrow> (Inr cache, self)
           | None \<Rightarrow>
               (case construct cachetype cachesize cargs of
                  Inl e \<Rightarrow> (Inl e, self)
                | Inr c \<Rightarrow>
                    (Inr (fresh self),
                     self\<lparr>cachedict := Some (d(mname \<mapsto> fresh self)),
                          heap := (heap self)(fresh self := c),
                          fresh := Suc (fresh self)\<rparr>))))"

text \<open>
  Lines 151-156: \<^verbatim>\<open>cache[argkey] = retval\<close> on the object the local variable
  refers to; a \<^verbatim>\<open>ValueError\<close> is swallowed, any other exception propagates.
\<close>

definition store ::
  "('k, 'v, 'c, 'p) cachetype \<Rightarrow> addr \<Rightarrow> 'k \<Rightarrow> 'v \<Rightarrow> ('c, 'u) pystate
    \<Rightarrow> (exn + 'v) \<times> ('c, 'u) pystate" where
  "store cachetype cache argkey retval s =
     (case setitem cachetype (heap s cache) argkey retval of
        (None, c) \<Rightarrow> (Inr retval, s\<lparr>heap := (heap s)(cache := c)\<rparr>)
      | (Some e, c) \<Rightarrow>
          if is_ValueError e then (Inr retval, s\<lparr>heap := (heap s)(cache := c)\<rparr>)
          else (Inl e, s\<lparr>heap := (heap s)(cache := c)\<rparr>))"

text \<open>
  Lines 150-156: the call of the wrapped method with the arguments as they came, outside
  every \<^verbatim>\<open>try\<close>, followed by the attempt to store its return value.
\<close>

definition compute ::
  "('k, 'v, 'c, 'p) cachetype \<Rightarrow> (('c, 'u) pystate \<Rightarrow> 'a \<Rightarrow> 'r \<Rightarrow> (exn + 'v) \<times> ('c, 'u) pystate)
    \<Rightarrow> addr \<Rightarrow> 'k \<Rightarrow> ('c, 'u) pystate \<Rightarrow> 'a \<Rightarrow> 'r \<Rightarrow> (exn + 'v) \<times> ('c, 'u) pystate" where
  "compute cachetype arraymethod cache argkey s arrayarg args =
     (case arraymethod s arrayarg args of
        (Inl e, s') \<Rightarrow> (Inl e, s')
      | (Inr retval, s') \<Rightarrow> store cachetype cache argkey retval s')"

text \<open>
  Lines 127-156, the body of \<^verbatim>\<open>wrapper\<close>, with the variables of the enclosing
  functions (\<^verbatim>\<open>cachetype\<close>, \<^verbatim>\<open>cachesize\<close>, \<^verbatim>\<open>keyfcn\<close>, the extra arguments,
  \<^verbatim>\<open>mname\<close>, \<^verbatim>\<open>arraymethod\<close>) as parameters.
\<close>

definition wrapper ::
  "('k, 'v, 'c, 'p) cachetype \<Rightarrow> int \<Rightarrow> ('a \<Rightarrow> exn + 'k) \<Rightarrow> 'p \<Rightarrow> string
    \<Rightarrow> (('c, 'u) pystate \<Rightarrow> 'a \<Rightarrow> 'r \<Rightarrow> (exn + 'v) \<times> ('c, 'u) pystate)
    \<Rightarrow> ('c, 'u) pystate \<Rightarrow> 'a \<Rightarrow> 'r \<Rightarrow> (exn + 'v) \<times> ('c, 'u) pystate" where
  "wrapper cachetype cachesize keyfcn cargs mname arraymethod self arrayarg args =
     (case get_cache cachetype cachesize cargs mname self of
        (Inl e, s) \<Rightarrow> (Inl e, s)
      | (Inr cache, s) \<Rightarrow>
          (case keyfcn arrayarg of
             Inl e \<Rightarrow> (Inl e, s)
           | Inr argkey \<Rightarrow>
               (case getitem cachetype (heap s cache) argkey of
                  (Inr v, c) \<Rightarrow> (Inr v, s\<lparr>heap := (heap s)(cache := c)\<rparr>)
                | (Inl e, c) \<Rightarrow>
                    if is_KeyError e
                    then compute cachetype arraymethod cache argkey
                           (s\<lparr>heap := (heap s)(cache := c)\<rparr>) arrayarg args
                    else (Inl e, s\<lparr>heap := (heap s)(cache := c)\<rparr>))))"

subsection \<open>The decorator and its factory\<close>

text \<open>
  \<^verbatim>\<open>functools.wraps(wrapped)\<close> of the standard library copies \<^verbatim>\<open>__module__\<close>,
  \<^verbatim>\<open>__name__\<close> and \<^verbatim>\<open>__doc__\<close> of the wrapped function to the wrapper.
\<close>

definition wraps ::
  "('s, 'a, 'r, 'v) pymethod \<Rightarrow> ('s, 'a, 'r, 'v) pymethod \<Rightarrow> ('s, 'a, 'r, 'v) pymethod" where
  "wraps wrapped w = w\<lparr>name := name wrapped, doc := doc wrapped, modul := modul wrapped\<rparr>"

text \<open>
  Lines 118-157: \<^verbatim>\<open>decorator\<close> reads the method's name once and returns the
  wrapper, a function named \<^verbatim>\<open>wrapper\<close> with a docstring of its own, passed through
  \<^verbatim>\<open>functools.wraps(arraymethod)\<close>.
\<close>

definition decorator ::
  "('k, 'v, 'c, 'p) cachetype \<Rightarrow> int \<Rightarrow> ('a \<Rightarrow> exn + 'k) \<Rightarrow> 'p
    \<Rightarrow> (('c, 'u) pystate, 'a, 'r, 'v) pymethod \<Rightarrow> (('c, 'u) pystate, 'a, 'r, 'v) pymethod" where
  "decorator cachetype cachesize keyfcn cargs arraymethod =
     (let mname = name arraymethod in
      wraps arraymethod
        \<lparr>name = ''wrapper'',
         doc = Some ''The actual wrapper that intercepts the method call arguments, performs the caching, and returns the result to caller.'',
         modul = ''simplecache'',
         call = wrapper cachetype cachesize keyfcn cargs mname (call arraymethod)\<rparr>)"

text \<open>
  Lines 92-158: \<^verbatim>\<open>memoized\<close>. With \<^verbatim>\<open>cachetype is None\<close> it returns the
  identity decorator \<^verbatim>\<open>lambda x: x\<close>, otherwise \<^verbatim>\<open>decorator\<close>.
\<close>

definition memoized ::
  "('k, 'v, 'c, 'p) cachetype option \<Rightarrow> int \<Rightarrow> ('a \<Rightarrow> exn + 'k) \<Rightarrow> 'p
    \<Rightarrow> (('c, 'u) pystate, 'a, 'r, 'v) pymethod \<Rightarrow> (('c, 'u) pystate, 'a, 'r, 'v) pymethod" where
  "memoized cachetype cachesize keyfcn cargs =
     (case cachetype of
        None \<Rightarrow> (\<lambda>x. x)
      | Some ct \<Rightarrow> decorator ct cachesize keyfcn cargs)"

subsection \<open>The mix-in\<close>

text \<open>
  Lines 168-171, \<^verbatim>\<open>ArrayMethodCacheMixin.__init__(self, *args, **kwargs)\<close>:
  \<^verbatim>\<open>self._cachedict = {}\<close> and nothing else.
\<close>

definition ArrayMethodCacheMixin_init :: "('c, 'u) pystate \<Rightarrow> 'x \<Rightarrow> 'y \<Rightarrow> ('c, 'u) pystate" where
  "ArrayMethodCacheMixin_init self args kwargs = self\<lparr>cachedict := Some Map.empty\<rparr>"

subsection \<open>An eviction policy\<close>

text \<open>
  Modelled from the spec: \<^verbatim>\<open>cachetools.LRUCache\<close>, the default value of
  \<^verbatim>\<open>cachetype\<close>, belongs to an external package and is not part of the source. The
  spec (sections 3 and 4.2) describes the capability: a bounded key-value store, built with
  a capacity and optional extra parameters, whose \<open>get\<close> misses without side effect and
  records the access on a hit, and whose \<open>set\<close> inserts or updates, evicts other entries
  to satisfy the capacity bound, and rejects a value that is too large without changing the
  state. The policy below evicts the least recently used entries: \<open>entries\<close> lists the
  residents from the least to the most recently used, \<open>getsizeof\<close> (the extra parameter,
  by default the constant 1) weighs a value, and the weights of the residents never sum to
  more than \<open>maxsize\<close> after a write. A miss raises \<^verbatim>\<open>KeyError\<close>, a rejection
  \<^verbatim>\<open>ValueError\<close>, the two exceptions the wrapper catches.
\<close>

record ('k, 'v) lrucache =
  maxsize :: int
  getsizeof :: "'v \<Rightarrow> int"
  entries :: "('k \<times> 'v) list"

definition currsize :: "('v \<Rightarrow> int) \<Rightarrow> ('k \<times> 'v) list \<Rightarrow> int" where
  "currsize gs es = sum_list (map (\<lambda>e. gs (snd e)) es)"

fun evict :: "('v \<Rightarrow> int) \<Rightarrow> int \<Rightarrow> ('k \<times> 'v) list \<Rightarrow> ('k \<times> 'v) list" where
  "evict gs room [] = []"
| "evict gs room (e # es) = (if currsize gs (e # es) > room then evict gs room es else e # es)"

definition lru_construct :: "int \<Rightarrow> ('v \<Rightarrow> int) option \<Rightarrow> exn + ('k, 'v) lrucache" where
  "lru_construct n gs =
     Inr \<lparr>maxsize = n, getsizeof = (case gs of None \<Rightarrow> (\<lambda>_. 1) | Some g \<Rightarrow> g), entries = []\<rparr>"

definition lru_getitem :: "('k, 'v) lrucache \<Rightarrow> 'k \<Rightarrow> (exn + 'v) \<times> ('k, 'v) lrucache" where
  "lru_getitem c k =
     (case map_of (entries c) k of
        None \<Rightarrow> (Inl (KeyError ''key''), c)
      | Some v \<Rightarrow> (Inr v, c\<lparr>entries := filter (\<lambda>e. fst e \<noteq> k) (entries c) @ [(k, v)]\<rparr>))"

definition lru_setitem :: "('k, 'v) lrucache \<Rightarrow> 'k \<Rightarrow> 'v \<Rightarrow> exn option \<times> ('k, 'v) lrucache" where
  "lru_setitem c k v =
     (if getsizeof c v > maxsize c then (Some (ValueError ''value too large''), c)
      else (None, c\<lparr>entries :=
              evict (getsizeof c) (maxsize c - getsizeof c v)
                (filter (\<lambda>e. fst e \<noteq> k) (entries c)) @ [(k, v)]\<rparr>))"

definition LRUCache :: "('k, 'v, ('k, 'v) lrucache, ('v \<Rightarrow> int) option) cachetype" where
  "LRUCache = \<lparr>construct = lru_construct, getitem = lru_getitem, setitem = lru_setitem\<rparr>"

subsection \<open>Vocabulary of the properties\<close>

text \<open>
  Two clauses of the contract of section 4.2 that the properties below rely on, as
  predicates on a cache type: a value that was stored is the value read back under its
  key, and a rejected write (a \<^verbatim>\<open>ValueError\<close>) leaves the cache as it was.
\<close>

definition read_after_write :: "('k, 'v, 'c, 'p) cachetype \<Rightarrow> bool" where
  "read_after_write ct \<longleftrightarrow>
     (\<forall>c k v c'. setitem ct c k v = (None, c') \<longrightarrow> fst (getitem ct c' k) = Inr v)"

definition rejection_no_effect :: "('k, 'v, 'c, 'p) cachetype \<Rightarrow> bool" where
  "rejection_no_effect ct \<longleftrightarrow>
     (\<forall>c k v e c'. setitem ct c k v = (Some e, c') \<longrightarrow> is_ValueError e \<longrightarrow> c' = c)"

text \<open>
  The reference registered for a method name, if the registry exists and has one.
\<close>

definition registered :: "('c, 'u) pystate \<Rightarrow> string \<Rightarrow> addr option" where
  "registered s mname = (case cachedict s of None \<Rightarrow> None | Some d \<Rightarrow> d mname)"


subsection \<open>Example objects\<close>

text \<open>
  Two arrays with the same four one-byte elements, \<open>a b\<close> over \<open>c d\<close>, in different
  storage: \<open>x_c\<close> is row-major, \<open>x_f\<close> is a column-major buffer read through
  transposed strides.
\<close>

definition x_c :: ndarray where
  "x_c = \<lparr>buffer = (\<lambda>i. ''abcd'' ! nat i), offset = 0, shape = [2, 2], strides = [2, 1],
          itemsize = 1\<rparr>"

definition x_f :: ndarray where
  "x_f = \<lparr>buffer = (\<lambda>i. ''acbd'' ! nat i), offset = 0, shape = [2, 2], strides = [1, 2],
          itemsize = 1\<rparr>"

text \<open>
  A method in the shape of \<^verbatim>\<open>spam(self, array, blah)\<close> of the module's docstring:
  its result depends on the array and on the extra argument, and it counts its own
  invocations in the instance's attributes. \<open>eggs\<close> counts in the same way and raises
  a \<^verbatim>\<open>KeyError\<close>.
\<close>

definition spam_call ::
  "('c, nat) pystate \<Rightarrow> ndarray \<Rightarrow> int \<Rightarrow> (exn + int) \<times> ('c, nat) pystate" where
  "spam_call self array blah =
     (Inr (int (length (tostring array)) + blah), self\<lparr>attrs := Suc (attrs self)\<rparr>)"

definition spam :: "(('c, nat) pystate, ndarray, int, int) pymethod" where
  "spam = \<lparr>name = ''spam'', doc = Some ''Docstring for method spam.'', modul = ''__main__'',
           call = spam_call\<rparr>"

definition eggs_call ::
  "('c, nat) pystate \<Rightarrow> ndarray \<Rightarrow> int \<Rightarrow> (exn + int) \<times> ('c, nat) pystate" where
  "eggs_call self array blah = (Inl (KeyError ''eggs''), self\<lparr>attrs := Suc (attrs self)\<rparr>)"

definition eggs :: "(('c, nat) pystate, ndarray, int, int) pymethod" where
  "eggs = \<lparr>name = ''eggs'', doc = None, modul = ''__main__'', call = eggs_call\<rparr>"

text \<open>
  \<open>by_value\<close> is a \<^verbatim>\<open>getsizeof\<close> that weighs an integer by itself. \<open>new_object\<close>
  is an instance before any initialiser ran, \<open>ta\<close> the instance after the mix-in's
  initialiser.
\<close>

definition by_value :: "int \<Rightarrow> int" where
  "by_value v = v"

definition new_object :: "((string, int) lrucache, nat) pystate" where
  "new_object = \<lparr>cachedict = None,
                  heap = (\<lambda>_. \<lparr>maxsize = 0, getsizeof = (\<lambda>_. 0), entries = []\<rparr>),
                  fresh = 0, attrs = 0\<rparr>"

definition ta :: "((string, int) lrucache, nat) pystate" where
  "ta = ArrayMethodCacheMixin_init new_object () ()"

section \<open>Properties\<close>

subsection \<open>Auxiliary facts\<close>

text \<open>The example policy keeps the two clauses of the contract.\<close>

lemma evict_keys: "fst ` set (evict gs room es) \<subseteq> fst ` set es"
  by (induction es) auto

lemma map_of_snoc_fresh: "k \<notin> fst ` set es \<Longrightarrow> map_of (es @ [(k, v)]) k = Some v"
  by (induction es) auto

lemma LRUCache_read_after_write: "read_after_write LRUCache"
proof -
  have "map_of (evict gs room (filter (\<lambda>e. fst e \<noteq> k) es) @ [(k, v)]) k = Some v"
    for gs :: "'b \<Rightarrow> int" and room and k :: 'a and es v
  proof (rule map_of_snoc_fresh)
    show "k \<notin> fst ` set (evict gs room (filter (\<lambda>e. fst e \<noteq> k) es))"
      using evict_keys [of gs room "filter (\<lambda>e. fst e \<noteq> k) es"] by auto
  qed
  then show ?thesis
    by (auto simp: read_after_write_def LRUCache_def lru_setitem_def lru_getitem_def
        split: if_splits)
qed

lemma LRUCache_rejection_no_effect: "rejection_no_effect LRUCache"
  by (auto simp: rejection_no_effect_def LRUCache_def lru_setitem_def split: if_splits)

text \<open>The two outcomes of the registry lookup and of the probe.\<close>

lemma registered_heap_update [simp]:
  "registered (s\<lparr>heap := h\<rparr>) mname = registered s mname"
  by (simp add: registered_def)

lemma get_cache_registered:
  "registered s mname = Some p \<Longrightarrow> get_cache ct sz cargs mname s = (Inr p, s)"
  by (auto simp: registered_def get_cache_def split: option.splits)



lemma wrapper_hit:
  "get_cache ct sz cargs mname s = (Inr p, sa) \<Longrightarrow> keyfcn a = Inr k \<Longrightarrow>
   getitem ct (heap sa p) k = (Inr v, c) \<Longrightarrow>
   wrapper ct sz keyfcn cargs mname f s a r = (Inr v, sa\<lparr>heap := (heap sa)(p := c)\<rparr>)"
  by (simp add: wrapper_def)

lemma wrapper_miss:
  "get_cache ct sz cargs mname s = (Inr p, sa) \<Longrightarrow> keyfcn a = Inr k \<Longrightarrow>
   getitem ct (heap sa p) k = (Inl e, c) \<Longrightarrow> is_KeyError e \<Longrightarrow>
   wrapper ct sz keyfcn cargs mname f s a r =
     compute ct f p k (sa\<lparr>heap := (heap sa)(p := c)\<rparr>) a r"
  by (simp add: wrapper_def)

text \<open>
  The call of a method decorated with a cache type is \<open>wrapper\<close> with the method's
  name and the method's call, so the properties of \<open>wrapper\<close> below are properties of
  every decorated method.
\<close>

lemma call_memoized:
  "call (memoized (Some ct) sz keyfcn cargs m) = wrapper ct sz keyfcn cargs (name m) (call m)"
  by (simp add: memoized_def decorator_def wraps_def)

text \<open>Facts about the example objects.\<close>

lemmas fixture_defs = spam_call_def spam_def eggs_call_def new_object_def ta_def
  ArrayMethodCacheMixin_init_def by_value_def

lemmas lru_defs = LRUCache_def lru_construct_def lru_getitem_def lru_setitem_def currsize_def

lemma tostring_x_c: "tostring x_c = ''abcd''"
  by (simp add: tostring_def item_def byte_offset_def x_c_def upt_rec)

lemma tostring_x_f: "tostring x_f = ''abcd''"
  by (simp add: tostring_def item_def byte_offset_def x_f_def upt_rec)

lemma keyfcn_default_x_c: "keyfcn_default x_c = Inr ''abcd''"
  by (simp add: keyfcn_default_def tostring_x_c)

lemma keyfcn_default_x_f: "keyfcn_default x_f = Inr ''abcd''"
  by (simp add: keyfcn_default_def tostring_x_f)

lemmas run_defs = call_memoized wrapper_def get_cache_def compute_def store_def registered_def
  keyfcn_default_x_c keyfcn_default_x_f tostring_x_c tostring_x_f

text \<open>
  A miss whose result is stored, followed by a call with the same key: the second call
  does not depend on the method \<open>f'\<close> it wraps nor on the extra arguments.
\<close>

lemma miss_then_hit:
  assumes raw: "read_after_write ct"
    and gc: "get_cache ct sz cargs mname s0 = (Inr p, sa)"
    and k1: "keyfcn a1 = Inr k" and k2: "keyfcn a2 = Inr k"
    and miss: "getitem ct (heap sa p) k = (Inl e, c1)" "is_KeyError e"
    and comp: "f (sa\<lparr>heap := (heap sa)(p := c1)\<rparr>) a1 r1 = (Inr v, s2)"
    and acc: "setitem ct (heap s2 p) k v = (None, c3)"
    and frame: "registered s2 mname = Some p"
  shows "wrapper ct sz keyfcn cargs mname f s0 a1 r1 = (Inr v, s2\<lparr>heap := (heap s2)(p := c3)\<rparr>)"
    and "wrapper ct sz keyfcn cargs mname f' (s2\<lparr>heap := (heap s2)(p := c3)\<rparr>) a2 r2
           = (Inr v, s2\<lparr>heap := (heap s2)(p := snd (getitem ct c3 k))\<rparr>)"
proof -
  let ?s3 = "s2\<lparr>heap := (heap s2)(p := c3)\<rparr>"
  show "wrapper ct sz keyfcn cargs mname f s0 a1 r1 = (Inr v, ?s3)"
    using wrapper_miss [where keyfcn = keyfcn and a = a1, OF gc k1 miss, of f r1] comp acc
    by (simp add: compute_def store_def)
  have reg: "registered ?s3 mname = Some p"
    using frame by simp
  have hit: "getitem ct (heap ?s3 p) k = (Inr v, snd (getitem ct c3 k))"
  proof -
    have "fst (getitem ct c3 k) = Inr v"
      using raw acc unfolding read_after_write_def by blast
    then show ?thesis by (simp add: prod_eq_iff)
  qed
  show "wrapper ct sz keyfcn cargs mname f' ?s3 a2 r2
      = (Inr v, s2\<lparr>heap := (heap s2)(p := snd (getitem ct c3 k))\<rparr>)"
    using wrapper_hit [where keyfcn = keyfcn and a = a2, OF get_cache_registered [OF reg] k2 hit,
        of sz cargs f' r2]
    by simp
qed

lemma attrs_store: "attrs (snd (store ct q k v s)) = attrs s"
  by (simp add: store_def split: prod.splits option.splits)

lemma compute_spam_attrs: "attrs (snd (compute ct spam_call q k s a r)) = Suc (attrs s)"
  by (simp add: compute_def spam_call_def attrs_store)

lemma compute_eggs_attrs: "attrs (snd (compute ct eggs_call q k s a r)) = Suc (attrs s)"
  by (simp add: compute_def eggs_call_def)






text \<open>
  The first call of the example methods on the initialised instance \<open>ta\<close>, step by
  step: the cache is created at reference 0, the probe misses, the method runs once.
\<close>

lemma spam_run:
  fixes sz :: int and cargs :: "(int \<Rightarrow> int) option"
  defines "g \<equiv> get_cache LRUCache sz cargs ''spam'' ta"
  defines "c \<equiv> getitem LRUCache (heap (snd g) 0) ''abcd''"
  defines "m \<equiv> spam_call ((snd g)\<lparr>heap := (heap (snd g))(0 := snd c)\<rparr>) x_c 5"
  shows "g = (Inr 0, snd g)"
    and "c = (Inl (KeyError ''key''), snd c)"
    and "m = (Inr 9, snd m)"
    and "registered (snd m) ''spam'' = Some 0"
    and "heap (snd m) 0 = \<lparr>maxsize = sz, getsizeof = (case cargs of None \<Rightarrow> (\<lambda>_. 1) | Some g \<Rightarrow> g), entries = []\<rparr>"
    and "attrs (snd m) = 1"
  unfolding g_def c_def m_def
  by (simp_all add: prod_eq_iff get_cache_def registered_def fixture_defs lru_defs tostring_x_c)

lemma eggs_run:
  defines "g \<equiv> get_cache LRUCache 64 None ''eggs'' ta"
  defines "c \<equiv> getitem LRUCache (heap (snd g) 0) ''abcd''"
  defines "m \<equiv> eggs_call ((snd g)\<lparr>heap := (heap (snd g))(0 := snd c)\<rparr>) x_c 5"
  shows "g = (Inr 0, snd g)"
    and "c = (Inl (KeyError ''key''), snd c)"
    and "m = (Inl (KeyError ''eggs''), snd m)"
    and "registered (snd m) ''eggs'' = Some 0"
    and "heap (snd m) 0 = \<lparr>maxsize = 64, getsizeof = (\<lambda>_. 1), entries = []\<rparr>"
    and "attrs (snd m) = 1"
  unfolding g_def c_def m_def
  by (simp_all add: prod_eq_iff get_cache_def registered_def fixture_defs lru_defs)

subsection \<open>C1: a second call with an equal key is a hit\<close>

text \<open>
  Claim C1, as amended. Let the registry exist, let the first call with \<open>a1\<close> miss,
  let the underlying method return \<open>v\<close>, let the cache accept \<open>v\<close> under the key
  and let the method leave the registry entry of its name in place; let the cache type
  return what was stored (\<open>read_after_write\<close>). Then the first call returns \<open>v\<close>,
  having run the method once, and a second call with an argument \<open>a2\<close> of the same key
  returns \<open>v\<close>: its outcome is the same for every underlying method \<open>f'\<close> and every
  extra argument, so the underlying method is not invoked.
\<close>

theorem second_call_is_hit:
  assumes raw: "read_after_write ct"
    and gc: "get_cache ct sz cargs mname s0 = (Inr p, sa)"
    and k1: "keyfcn a1 = Inr k" and k2: "keyfcn a2 = Inr k"
    and miss: "getitem ct (heap sa p) k = (Inl e, c1)" "is_KeyError e"
    and comp: "f (sa\<lparr>heap := (heap sa)(p := c1)\<rparr>) a1 r1 = (Inr v, s2)"
    and acc: "setitem ct (heap s2 p) k v = (None, c3)"
    and frame: "registered s2 mname = Some p"
  shows "wrapper ct sz keyfcn cargs mname f s0 a1 r1 = (Inr v, s2\<lparr>heap := (heap s2)(p := c3)\<rparr>)
       \<and> (\<forall>f' r2. wrapper ct sz keyfcn cargs mname f' (s2\<lparr>heap := (heap s2)(p := c3)\<rparr>) a2 r2
                 = (Inr v, s2\<lparr>heap := (heap s2)(p := snd (getitem ct c3 k))\<rparr>))"
  using miss_then_hit [where keyfcn = keyfcn and ?a1.0 = a1 and ?a2.0 = a2 and f = f
      and ?r1.0 = r1, OF raw gc k1 k2 miss comp acc frame]
  by blast

text \<open>
  The hypotheses hold for \<^verbatim>\<open>@memoized()\<close> on the example method, called with the
  row-major array and then with the column-major one.
\<close>

theorem second_call_is_hit_witness:
  "fst (wrapper LRUCache 64 keyfcn_default None ''spam'' spam_call ta x_c 5) = Inr 9
   \<and> (\<forall>f' (r2::int). fst (wrapper LRUCache 64 keyfcn_default None ''spam'' f'
                    (snd (wrapper LRUCache 64 keyfcn_default None ''spam'' spam_call ta x_c 5))
                    x_f r2) = Inr 9)"
proof -
  note run = spam_run [of 64 None]
  let ?g = "get_cache LRUCache 64 None ''spam'' ta"
  let ?c = "getitem LRUCache (heap (snd ?g) 0) ''abcd''"
  let ?m = "spam_call ((snd ?g)\<lparr>heap := (heap (snd ?g))(0 := snd ?c)\<rparr>) x_c 5"
  let ?w = "setitem LRUCache (heap (snd ?m) 0) ''abcd'' 9"
  have acc: "?w = (None, snd ?w)"
    unfolding run(5) by (simp add: prod_eq_iff lru_defs)
  have iskey: "is_KeyError (KeyError ''key'')" by simp
  note th = second_call_is_hit [where keyfcn = keyfcn_default and ?a1.0 = x_c and ?a2.0 = x_f
      and f = spam_call and ?r1.0 = 5,
      OF LRUCache_read_after_write run(1) keyfcn_default_x_c keyfcn_default_x_f run(2) iskey
        run(3) acc run(4)]
  show ?thesis
    by (simp only: th [THEN conjunct1] th [THEN conjunct2, rule_format] fst_conv snd_conv simp_thms)
qed

text \<open>
  The claim as stated, for every decorated method, fails where the store is rejected or
  the method raises. With capacity 4 and values weighed by themselves the result 9 is
  rejected, and the second call with the same key runs the method a second time; a method
  that raises is run by both calls as well.
\<close>

theorem second_call_is_hit_counterexample:
  "keyfcn_default x_c = keyfcn_default x_f
   \<and> fst (call (memoized (Some LRUCache) 4 keyfcn_default (Some by_value) spam) ta x_c 5) = Inr 9
   \<and> attrs (snd (call (memoized (Some LRUCache) 4 keyfcn_default (Some by_value) spam) ta x_c 5)) = 1
   \<and> fst (call (memoized (Some LRUCache) 4 keyfcn_default (Some by_value) spam)
          (snd (call (memoized (Some LRUCache) 4 keyfcn_default (Some by_value) spam) ta x_c 5))
          x_f 5) = Inr 9
   \<and> attrs (snd (call (memoized (Some LRUCache) 4 keyfcn_default (Some by_value) spam)
          (snd (call (memoized (Some LRUCache) 4 keyfcn_default (Some by_value) spam) ta x_c 5))
          x_f 5)) = 2
   \<and> attrs (snd (call (memoized (Some LRUCache) 64 keyfcn_default None eggs)
          (snd (call (memoized (Some LRUCache) 64 keyfcn_default None eggs) ta x_c 5))
          x_f 5)) = 2"
  by (simp add: run_defs fixture_defs eggs_def lru_defs)

subsection \<open>C2: the extra arguments are passed through and are not part of the key\<close>

text \<open>
  Claim C2. On a miss the wrapper runs \<open>compute\<close> on the arguments as they came, so
  the underlying method receives \<open>a\<close> and \<open>r1\<close> unchanged. The key is
  \<open>keyfcn a\<close> alone: once the first call has stored its result \<open>v\<close> (the cache
  accepts it and returns what was stored, the method leaves the registry entry in place),
  a call with the same array and any other extra arguments \<open>r2\<close> returns \<open>v\<close>, the
  value cached by the first call.
\<close>

theorem extra_arguments_not_in_key:
  assumes raw: "read_after_write ct"
    and gc: "get_cache ct sz cargs mname s0 = (Inr p, sa)"
    and key: "keyfcn a = Inr k"
    and miss: "getitem ct (heap sa p) k = (Inl e, c1)" "is_KeyError e"
    and comp: "f (sa\<lparr>heap := (heap sa)(p := c1)\<rparr>) a r1 = (Inr v, s2)"
    and acc: "setitem ct (heap s2 p) k v = (None, c3)"
    and frame: "registered s2 mname = Some p"
  shows "wrapper ct sz keyfcn cargs mname f s0 a r1 =
           compute ct f p k (sa\<lparr>heap := (heap sa)(p := c1)\<rparr>) a r1
       \<and> fst (wrapper ct sz keyfcn cargs mname f s0 a r1) = Inr v
       \<and> (\<forall>r2. fst (wrapper ct sz keyfcn cargs mname f
                       (snd (wrapper ct sz keyfcn cargs mname f s0 a r1)) a r2) = Inr v)"
proof (intro conjI allI)
  note mh = miss_then_hit [where keyfcn = keyfcn and ?a1.0 = a and ?a2.0 = a and f = f
      and ?r1.0 = r1, OF raw gc key key miss comp acc frame]
  show "wrapper ct sz keyfcn cargs mname f s0 a r1 =
          compute ct f p k (sa\<lparr>heap := (heap sa)(p := c1)\<rparr>) a r1"
    by (rule wrapper_miss [where keyfcn = keyfcn and a = a, OF gc key miss])
  show "fst (wrapper ct sz keyfcn cargs mname f s0 a r1) = Inr v"
    by (simp add: mh(1))
  show "fst (wrapper ct sz keyfcn cargs mname f
               (snd (wrapper ct sz keyfcn cargs mname f s0 a r1)) a r2) = Inr v" for r2
    by (simp add: mh)
qed

text \<open>
  The example method adds its extra argument to the length of the array: called with 5 it
  returns 9, and the call with 7 returns the cached 9 where the method itself would
  return 11.
\<close>

theorem extra_arguments_not_in_key_witness:
  "fst (wrapper LRUCache 64 keyfcn_default None ''spam'' spam_call ta x_c 5) = Inr 9
   \<and> fst (wrapper LRUCache 64 keyfcn_default None ''spam'' spam_call
          (snd (wrapper LRUCache 64 keyfcn_default None ''spam'' spam_call ta x_c 5)) x_c 7) = Inr 9
   \<and> fst (spam_call (snd (wrapper LRUCache 64 keyfcn_default None ''spam'' spam_call ta x_c 5))
          x_c 7) = Inr 11"
proof -
  note run = spam_run [of 64 None]
  let ?g = "get_cache LRUCache 64 None ''spam'' ta"
  let ?c = "getitem LRUCache (heap (snd ?g) 0) ''abcd''"
  let ?m = "spam_call ((snd ?g)\<lparr>heap := (heap (snd ?g))(0 := snd ?c)\<rparr>) x_c 5"
  let ?w = "setitem LRUCache (heap (snd ?m) 0) ''abcd'' 9"
  have acc: "?w = (None, snd ?w)"
    unfolding run(5) by (simp add: prod_eq_iff lru_defs)
  have iskey: "is_KeyError (KeyError ''key'')" by simp
  note th = extra_arguments_not_in_key [where keyfcn = keyfcn_default and a = x_c
      and f = spam_call and ?r1.0 = 5,
      OF LRUCache_read_after_write run(1) keyfcn_default_x_c run(2) iskey run(3) acc run(4)]
  have "fst (spam_call s x_c 7) = Inr 11" for s :: "((string, int) lrucache, nat) pystate"
    by (simp add: spam_call_def tostring_x_c)
  then show ?thesis
    using th [THEN conjunct2, THEN conjunct1] th [THEN conjunct2, THEN conjunct2, rule_format, of 7]
    by simp
qed

subsection \<open>C3: a rejected store is silent\<close>

text \<open>
  Claim C3. Let a call miss, let the underlying method return \<open>v\<close>, and let the cache
  reject the store with a \<^verbatim>\<open>ValueError\<close>, a rejection leaving the cache as it was
  (\<open>rejection_no_effect\<close>, section 4.2). Then the wrapper returns \<open>v\<close> and no
  error, in exactly the state the method left: nothing was added. If the method itself
  left the key absent and the registry entry in place, a later call with the same key
  misses again and goes through \<open>compute\<close>: it runs the underlying method.
\<close>

theorem rejected_store_is_silent:
  assumes rne: "rejection_no_effect ct"
    and gc: "get_cache ct sz cargs mname s0 = (Inr p, sa)"
    and key: "keyfcn a = Inr k"
    and miss: "getitem ct (heap sa p) k = (Inl e, c1)" "is_KeyError e"
    and comp: "f (sa\<lparr>heap := (heap sa)(p := c1)\<rparr>) a r = (Inr v, s2)"
    and rej: "setitem ct (heap s2 p) k v = (Some e', c3)" "is_ValueError e'"
    and frame: "registered s2 mname = Some p"
    and absent: "getitem ct (heap s2 p) k = (Inl e2, c2)" "is_KeyError e2"
  shows "wrapper ct sz keyfcn cargs mname f s0 a r = (Inr v, s2)
       \<and> (\<forall>f' a' r'. keyfcn a' = Inr k \<longrightarrow>
             wrapper ct sz keyfcn cargs mname f' s2 a' r' =
               compute ct f' p k (s2\<lparr>heap := (heap s2)(p := c2)\<rparr>) a' r')"
proof (intro conjI allI impI)
  have same: "c3 = heap s2 p"
    using rne rej unfolding rejection_no_effect_def by blast
  show "wrapper ct sz keyfcn cargs mname f s0 a r = (Inr v, s2)"
    using wrapper_miss [where keyfcn = keyfcn and a = a, OF gc key miss, of f r] comp rej same
    by (simp add: compute_def store_def)
  fix f' a' r'
  assume k': "keyfcn a' = Inr k"
  show "wrapper ct sz keyfcn cargs mname f' s2 a' r' =
          compute ct f' p k (s2\<lparr>heap := (heap s2)(p := c2)\<rparr>) a' r'"
    by (rule wrapper_miss [where keyfcn = keyfcn and a = a',
          OF get_cache_registered [OF frame] k' absent])
qed

text \<open>
  With capacity 4 and values weighed by themselves the result 9 is rejected: the first
  call returns 9 after one run of the method, the second call runs it a second time.
\<close>

theorem rejected_store_is_silent_witness:
  "fst (wrapper LRUCache 4 keyfcn_default (Some by_value) ''spam'' spam_call ta x_c 5) = Inr 9
   \<and> attrs (snd (wrapper LRUCache 4 keyfcn_default (Some by_value) ''spam'' spam_call ta x_c 5)) = 1
   \<and> attrs (snd (wrapper LRUCache 4 keyfcn_default (Some by_value) ''spam'' spam_call
          (snd (wrapper LRUCache 4 keyfcn_default (Some by_value) ''spam'' spam_call ta x_c 5))
          x_f 5)) = 2"
proof -
  note run = spam_run [of 4 "Some by_value"]
  let ?g = "get_cache LRUCache 4 (Some by_value) ''spam'' ta"
  let ?c = "getitem LRUCache (heap (snd ?g) 0) ''abcd''"
  let ?m = "spam_call ((snd ?g)\<lparr>heap := (heap (snd ?g))(0 := snd ?c)\<rparr>) x_c 5"
  let ?w = "setitem LRUCache (heap (snd ?m) 0) ''abcd'' 9"
  let ?r = "getitem LRUCache (heap (snd ?m) 0) ''abcd''"
  have rej: "?w = (Some (ValueError ''value too large''), snd ?w)"
    unfolding run(5) by (simp add: prod_eq_iff lru_defs by_value_def)
  have absent: "?r = (Inl (KeyError ''key''), snd ?r)"
    unfolding run(5) by (simp add: prod_eq_iff lru_defs)
  have iskey: "is_KeyError (KeyError ''key'')" by simp
  have isval: "is_ValueError (ValueError ''value too large'')" by simp
  note th = rejected_store_is_silent [where keyfcn = keyfcn_default and a = x_c
      and f = spam_call and r = 5,
      OF LRUCache_rejection_no_effect run(1) keyfcn_default_x_c run(2) iskey run(3) rej isval
        run(4) absent iskey]
  note first = th [THEN conjunct1]
  note again = th [THEN conjunct2, rule_format, of x_f spam_call 5, OF keyfcn_default_x_f]
  show ?thesis
    by (simp add: first again run(6) compute_spam_attrs)
qed

subsection \<open>C4: a failure of the underlying method propagates and nothing is cached\<close>

text \<open>
  Claim C4. Let a call miss and let the underlying method raise \<open>x\<close>. Then the
  wrapper raises the same \<open>x\<close>, whatever its class, in exactly the state the method
  left: the wrapper wrote nothing to the cache. If the method itself left the key absent
  and the registry entry in place, a later call with the same key misses and goes through
  \<open>compute\<close>: it runs the underlying method again.
\<close>

theorem method_failure_propagates:
  assumes gc: "get_cache ct sz cargs mname s0 = (Inr p, sa)"
    and key: "keyfcn a = Inr k"
    and miss: "getitem ct (heap sa p) k = (Inl e, c1)" "is_KeyError e"
    and fail: "f (sa\<lparr>heap := (heap sa)(p := c1)\<rparr>) a r = (Inl x, s2)"
    and frame: "registered s2 mname = Some p"
    and absent: "getitem ct (heap s2 p) k = (Inl e2, c2)" "is_KeyError e2"
  shows "wrapper ct sz keyfcn cargs mname f s0 a r = (Inl x, s2)
       \<and> (\<forall>f' a' r'. keyfcn a' = Inr k \<longrightarrow>
             wrapper ct sz keyfcn cargs mname f' s2 a' r' =
               compute ct f' p k (s2\<lparr>heap := (heap s2)(p := c2)\<rparr>) a' r')"
proof (intro conjI allI impI)
  show "wrapper ct sz keyfcn cargs mname f s0 a r = (Inl x, s2)"
    using wrapper_miss [where keyfcn = keyfcn and a = a, OF gc key miss, of f r] fail
    by (simp add: compute_def)
  fix f' a' r'
  assume k': "keyfcn a' = Inr k"
  show "wrapper ct sz keyfcn cargs mname f' s2 a' r' =
          compute ct f' p k (s2\<lparr>heap := (heap s2)(p := c2)\<rparr>) a' r'"
    by (rule wrapper_miss [where keyfcn = keyfcn and a = a',
          OF get_cache_registered [OF frame] k' absent])
qed

text \<open>
  The example method \<open>eggs\<close> raises a \<^verbatim>\<open>KeyError\<close>, the class the wrapper
  catches around its two lookups: it reaches the caller, and the second call runs the
  method a second time.
\<close>

theorem method_failure_propagates_witness:
  "fst (wrapper LRUCache 64 keyfcn_default None ''eggs'' eggs_call ta x_c 5) = Inl (KeyError ''eggs'')
   \<and> attrs (snd (wrapper LRUCache 64 keyfcn_default None ''eggs'' eggs_call ta x_c 5)) = 1
   \<and> attrs (snd (wrapper LRUCache 64 keyfcn_default None ''eggs'' eggs_call
          (snd (wrapper LRUCache 64 keyfcn_default None ''eggs'' eggs_call ta x_c 5))
          x_f 5)) = 2"
proof -
  note run = eggs_run
  let ?g = "get_cache LRUCache 64 None ''eggs'' ta"
  let ?c = "getitem LRUCache (heap (snd ?g) 0) ''abcd''"
  let ?m = "eggs_call ((snd ?g)\<lparr>heap := (heap (snd ?g))(0 := snd ?c)\<rparr>) x_c 5"
  let ?r = "getitem LRUCache (heap (snd ?m) 0) ''abcd''"
  have absent: "?r = (Inl (KeyError ''key''), snd ?r)"
    unfolding run(5) by (simp add: prod_eq_iff lru_defs)
  have iskey: "is_KeyError (KeyError ''key'')" by simp
  note th = method_failure_propagates [where keyfcn = keyfcn_default and a = x_c
      and f = eggs_call and r = 5,
      OF run(1) keyfcn_default_x_c run(2) iskey run(3) run(4) absent iskey]
  note first = th [THEN conjunct1]
  note again = th [THEN conjunct2, rule_format, of x_f eggs_call 5, OF keyfcn_default_x_f]
  show ?thesis
    by (simp add: first again run(6) compute_eggs_attrs)
qed

subsection \<open>C5: a missing registry is fatal\<close>

text \<open>
  Claim C5. On an instance without the attribute \<^verbatim>\<open>_cachedict\<close> every call of
  a decorated method raises the \<^verbatim>\<open>AttributeError\<close> of the attribute lookup and
  changes nothing; the underlying method, the key function and the cache type play no
  part in the outcome.
\<close>

theorem missing_registry_is_fatal:
  assumes "cachedict s = None"
  shows "call (memoized (Some ct) sz keyfcn cargs m) s a r
           = (Inl (AttributeError ''_cachedict''), s)"
  using assms by (simp add: call_memoized wrapper_def get_cache_def)

text \<open>
  An object on which the mix-in's initialiser never ran.
\<close>

theorem missing_registry_is_fatal_witness:
  "call (memoized (Some LRUCache) 64 keyfcn_default None spam) new_object x_c 5
     = (Inl (AttributeError ''_cachedict''), new_object)"
proof -
  have "cachedict new_object = None"
    by (simp add: new_object_def)
  then show ?thesis
    by (rule missing_registry_is_fatal)
qed

subsection \<open>C6: one cache per instance and method name\<close>



subsection \<open>C7: no caching with the cache type None\<close>

text \<open>
  Claim C7. With \<^verbatim>\<open>cachetype=None\<close> the decorated method is the method itself:
  every call is a call of the underlying method, with no access to the registry.
\<close>

theorem memoized_None_is_identity:
  "memoized None sz keyfcn cargs m = m
   \<and> call (memoized None sz keyfcn cargs m) s a r = call m s a r"
  by (simp add: memoized_def)

subsection \<open>C8: the default key depends on the contents only\<close>

text \<open>
  Claim C8. Two arrays of the same shape whose elements are the same bytes at every index
  have the same default key, wherever and in whatever order their buffers store the
  elements.
\<close>

theorem keyfcn_default_content:
  assumes "shape a = shape b"
    and "\<forall>idx \<in> set (indices (shape a)). item a idx = item b idx"
  shows "keyfcn_default a = keyfcn_default b"
  using assms by (simp add: keyfcn_default_def tostring_def cong: map_cong)

text \<open>
  The row-major and the column-major example arrays differ in their strides and have the
  same key.
\<close>

theorem keyfcn_default_content_witness:
  "strides x_c \<noteq> strides x_f \<and> keyfcn_default x_c = keyfcn_default x_f"
proof -
  have sh: "shape x_c = shape x_f"
    by (simp add: x_c_def x_f_def)
  have items: "\<forall>idx \<in> set (indices (shape x_c)). item x_c idx = item x_f idx"
    by (simp add: x_c_def x_f_def item_def byte_offset_def upt_rec)
  have "strides x_c \<noteq> strides x_f"
    by (simp add: x_c_def x_f_def)
  then show ?thesis
    using keyfcn_default_content [OF sh items] by simp
qed

subsection \<open>C9: the wrapper keeps the method's name and docstring\<close>

text \<open>
  Claim C9. With a cache type that is not \<^verbatim>\<open>None\<close>, the decorated method has
  the name and the docstring of the original method, not those of \<^verbatim>\<open>wrapper\<close>.
\<close>

theorem wrapper_keeps_metadata:
  "name (memoized (Some ct) sz keyfcn cargs m) = name m
   \<and> doc (memoized (Some ct) sz keyfcn cargs m) = doc m"
  by (simp add: memoized_def decorator_def wraps_def)

subsection \<open>C10: the initialiser resets the registry\<close>

text \<open>
  Claim C10. The initialiser returns the instance with an empty registry, whatever its
  arguments and whatever the registry was: nothing else changes, no method name has a
  cache registered afterwards, and the next call of a decorated method constructs a new
  cache at a new reference.
\<close>

theorem init_resets_registry:
  "ArrayMethodCacheMixin_init s args kwargs = s\<lparr>cachedict := Some Map.empty\<rparr>
   \<and> (\<forall>mname. registered (ArrayMethodCacheMixin_init s args kwargs) mname = None)
   \<and> fst (get_cache ct sz cargs mname (ArrayMethodCacheMixin_init s args kwargs))
       = (case construct ct sz cargs of Inl e \<Rightarrow> Inl e | Inr c \<Rightarrow> Inr (fresh s))"
  by (simp add: ArrayMethodCacheMixin_init_def registered_def get_cache_def split: sum.splits)

end
